theory Spec2Isabelle
  imports Complex_Main "HOL-Library.AList"
begin

section \<open>JavaScript numbers\<close>

text \<open>
  Amounts read from a transaction are finite and are modelled as \<^typ>\<open>real\<close>; sums,
  differences and products of amounts are exact (rounding of IEEE doubles is not
  modelled). The one way a non-finite value enters the analytics module is a division
  whose divisor is zero, so the result of such a division, and everything computed from
  it, is a \<open>number\<close>: a finite value, one of the two infinities, or NaN. Negative zero is
  not distinguished from zero: every divisor in the module is a sum started at \<open>0\<close>, a
  sum of squares or an array length, none of which is \<open>-0\<close>.
\<close>

datatype number = Fin real | PInf | NInf | NaN

text \<open>\<open>a / b\<close> on two finite operands.\<close>

definition num_div :: "real \<Rightarrow> real \<Rightarrow> number" where
  "num_div a b =
     (if b \<noteq> 0 then Fin (a / b)
      else if 0 < a then PInf
      else if a < 0 then NInf
      else NaN)"

definition inf_of_sign :: "real \<Rightarrow> number" where
  "inf_of_sign s = (if 0 < s then PInf else if s < 0 then NInf else NaN)"

fun num_neg :: "number \<Rightarrow> number" where
  "num_neg (Fin a) = Fin (- a)"
| "num_neg PInf = NInf"
| "num_neg NInf = PInf"
| "num_neg NaN = NaN"

fun num_add :: "number \<Rightarrow> number \<Rightarrow> number" where
  "num_add (Fin a) (Fin b) = Fin (a + b)"
| "num_add (Fin a) PInf = PInf"
| "num_add (Fin a) NInf = NInf"
| "num_add PInf (Fin b) = PInf"
| "num_add NInf (Fin b) = NInf"
| "num_add PInf PInf = PInf"
| "num_add NInf NInf = NInf"
| "num_add PInf NInf = NaN"
| "num_add NInf PInf = NaN"
| "num_add NaN y = NaN"
| "num_add x NaN = NaN"

definition num_sub :: "number \<Rightarrow> number \<Rightarrow> number" where
  "num_sub x y = num_add x (num_neg y)"

fun num_mul :: "number \<Rightarrow> number \<Rightarrow> number" where
  "num_mul (Fin a) (Fin b) = Fin (a * b)"
| "num_mul (Fin a) PInf = inf_of_sign a"
| "num_mul (Fin a) NInf = inf_of_sign (- a)"
| "num_mul PInf (Fin b) = inf_of_sign b"
| "num_mul NInf (Fin b) = inf_of_sign (- b)"
| "num_mul PInf PInf = PInf"
| "num_mul NInf NInf = PInf"
| "num_mul PInf NInf = NInf"
| "num_mul NInf PInf = NInf"
| "num_mul NaN y = NaN"
| "num_mul x NaN = NaN"

text \<open>\<open>x < y\<close>; every comparison with NaN is false. \<open>x > y\<close> is \<open>num_less y x\<close>.\<close>

fun num_less :: "number \<Rightarrow> number \<Rightarrow> bool" where
  "num_less (Fin a) (Fin b) = (a < b)"
| "num_less (Fin a) PInf = True"
| "num_less NInf (Fin b) = True"
| "num_less NInf PInf = True"
| "num_less x y = False"

fun Math_abs :: "number \<Rightarrow> number" where
  "Math_abs (Fin a) = Fin \<bar>a\<bar>"
| "Math_abs PInf = PInf"
| "Math_abs NInf = PInf"
| "Math_abs NaN = NaN"

text \<open>\<open>Math.max\<close> and \<open>Math.min\<close> of two arguments: NaN as soon as one argument is NaN.\<close>

definition Math_max :: "number \<Rightarrow> number \<Rightarrow> number" where
  "Math_max x y =
     (if x = NaN \<or> y = NaN then NaN else if num_less x y then y else x)"

definition Math_min :: "number \<Rightarrow> number \<Rightarrow> number" where
  "Math_min x y =
     (if x = NaN \<or> y = NaN then NaN else if num_less y x then y else x)"

section \<open>Dates\<close>

text \<open>
  A \<open>Date\<close> is modelled at day granularity as the calendar date it shows in the local
  time of the host; \<open>date-fns\<close> reads every \<open>Date\<close> in local time. Two things of the host
  are explicit arguments of the functions that read them: \<open>now\<close>, the local calendar date
  of \<open>new Date()\<close> at the time of the call, and the time zone \<open>tz\<close>, which turns the date
  string of a transaction into a local date.
\<close>

record date =
  year :: int
  month :: nat
  day :: nat

text \<open>The month key \<open>format(d, 'yyyy-MM')\<close>: the year and the month of the date.\<close>

type_synonym monthKey = "int \<times> nat"

definition format_yyyy_MM :: "date \<Rightarrow> monthKey" where
  "format_yyyy_MM d = (year d, month d)"

definition isLeapYear :: "int \<Rightarrow> bool" where
  "isLeapYear y = (y mod 400 = 0 \<or> (y mod 4 = 0 \<and> y mod 100 \<noteq> 0))"

definition getDaysInMonth :: "int \<Rightarrow> nat \<Rightarrow> nat" where
  "getDaysInMonth y m =
     (if m = 2 then (if isLeapYear y then 29 else 28)
      else if m = 4 \<or> m = 6 \<or> m = 9 \<or> m = 11 then 30
      else 31)"

text \<open>\<open>subMonths(d, n)\<close>: \<open>n\<close> calendar months earlier, the day capped at the length of
  the month reached.\<close>

definition subMonths :: "date \<Rightarrow> nat \<Rightarrow> date" where
  "subMonths d n =
     (let total = year d * 12 + int (month d) - 1 - int n;
          y = total div 12;
          m = nat (total mod 12) + 1
      in \<lparr>year = y, month = m, day = min (day d) (getDaysInMonth y m)\<rparr>)"

text \<open>
  A time zone gives the offset of local time from UTC, in minutes, in force at 00:00 UTC
  of a date: negative west of Greenwich, and always less than a day.
\<close>

type_synonym timeZone = "date \<Rightarrow> int"

definition previousDay :: "date \<Rightarrow> date" where
  "previousDay d =
     (if 1 < day d then d\<lparr>day := day d - 1\<rparr>
      else
        let y = (if month d = 1 then year d - 1 else year d);
            m = (if month d = 1 then 12 else month d - 1)
        in \<lparr>year = y, month = m, day = getDaysInMonth y m\<rparr>)"

text \<open>
  \<open>new Date(s)\<close> for a date-only string \<open>s = 'yyyy-MM-dd'\<close>, as the database column
  \<open>date DATE\<close> delivers it: the instant is 00:00 UTC of the date written in \<open>s\<close>. Local
  time shows that instant on the same calendar day when the offset is zero or positive,
  and in the evening of the day before when it is negative.
\<close>

definition new_Date :: "timeZone \<Rightarrow> date \<Rightarrow> date" where
  "new_Date tz s = (if tz s < 0 then previousDay s else s)"

definition startOfMonth :: "date \<Rightarrow> date" where
  "startOfMonth d = d\<lparr>day := 1\<rparr>"

definition endOfMonth :: "date \<Rightarrow> date" where
  "endOfMonth d = d\<lparr>day := getDaysInMonth (year d) (month d)\<rparr>"

definition date_le :: "date \<Rightarrow> date \<Rightarrow> bool" where
  "date_le a b =
     (year a < year b \<or>
      (year a = year b \<and> (month a < month b \<or> (month a = month b \<and> day a \<le> day b))))"

definition isWithinInterval :: "date \<Rightarrow> date \<Rightarrow> date \<Rightarrow> bool" where
  "isWithinInterval d start end' = (date_le start d \<and> date_le d end')"

section \<open>Transactions\<close>

datatype transactionType = Income | Expense

record category =
  cat_id :: nat
  name :: string
  color :: string
  icon :: string

text \<open>
  The fields of \<open>Transaction\<close> the module reads, and its identifier. \<open>date\<close> holds the
  calendar date written in the string \<open>transaction.date\<close>; the module reads it through
  \<open>new Date(transaction.date)\<close>. \<open>category_id\<close> is declared a \<open>number\<close> and is the key
  of a database row, a non-negative integer. The joined \<open>category\<close> is optional.
\<close>

record transaction =
  txn_id :: nat
  amount :: real
  date :: date
  description :: string
  category_id :: nat
  txn_type :: transactionType
  category :: "category option"

section \<open>Results\<close>

datatype insightType = Warning | Success | Info

datatype trend = Up | Down | Stable

text \<open>
  The message of an insight is one of four templates; the constructor keeps the values
  the template interpolates (the decimal rendering by \<open>toFixed\<close> is not modelled).
\<close>

datatype message =
    SpendingIncreased number
  | SpendingReduced number
  | UnusualSpending string number
  | SavingsTarget number string number

record spendingInsight =
  insight_type :: insightType
  message :: message
  insight_value :: "number option"
  insight_trend :: "trend option"

record categoryPrediction =
  categoryId :: nat
  predictedAmount :: number
  confidence :: number

record spendingTrend =
  trend :: trend
  percentage :: number

record unusualCategory =
  unusual_name :: string
  unusual_percentage :: number

record savingsOpportunity =
  opportunity_message :: message
  potentialSavings :: number

section \<open>Monthly aggregation\<close>

text \<open>
  A \<open>Map<string, number>\<close> is an association list in insertion order: \<open>set\<close> on a key
  that is present replaces its value in place, on a new key appends the entry
  (\<^const>\<open>AList.update\<close>); \<open>values()\<close> lists the values in that order.
  \<open>m.get(k) || 0\<close> is \<open>getOrZero\<close>.
\<close>

definition getOrZero :: "(monthKey \<times> real) list \<Rightarrow> monthKey \<Rightarrow> real" where
  "getOrZero m k = (case map_of m k of None \<Rightarrow> 0 | Some v \<Rightarrow> v)"

text \<open>
  The body shared by the two \<open>forEach\<close> callbacks that fill a month map: add the
  amount of the transaction to the entry of its month.
\<close>

definition addToMonth ::
  "timeZone \<Rightarrow> (monthKey \<times> real) list \<Rightarrow> transaction \<Rightarrow> (monthKey \<times> real) list"
where
  "addToMonth tz monthlyAmounts transaction =
     (let monthKey = format_yyyy_MM (new_Date tz (date transaction));
          currentAmount = getOrZero monthlyAmounts monthKey
      in AList.update monthKey (currentAmount + amount transaction) monthlyAmounts)"

definition calculateMonthlySpending ::
  "timeZone \<Rightarrow> transaction list \<Rightarrow> (monthKey \<times> real) list"
where
  "calculateMonthlySpending tz transactions =
     foldl (\<lambda>monthlySpending transaction.
              if txn_type transaction = Expense then addToMonth tz monthlySpending transaction
              else monthlySpending)
           [] transactions"

definition calculateMonthlyAmounts :: "timeZone \<Rightarrow> transaction list \<Rightarrow> real list" where
  "calculateMonthlyAmounts tz transactions = map snd (foldl (addToMonth tz) [] transactions)"

text \<open>\<open>slice(0, -1)\<close>: all but the last element, the empty array for the empty array.\<close>

definition calculateMonthlyAverages :: "timeZone \<Rightarrow> transaction list \<Rightarrow> real list" where
  "calculateMonthlyAverages tz transactions = butlast (calculateMonthlyAmounts tz transactions)"

definition calculateCurrentMonthSpending :: "timeZone \<Rightarrow> date \<Rightarrow> transaction list \<Rightarrow> real" where
  "calculateCurrentMonthSpending tz now transactions =
     foldl (\<lambda>sum t. sum + amount t) 0
       (filter (\<lambda>t. isWithinInterval (new_Date tz (date t)) (startOfMonth now) (endOfMonth now))
          transactions)"

text \<open>
  On the empty array both divisions are \<open>0 / 0\<close> and the result is NaN; on any other
  array the divisor is its length.
\<close>

definition calculateStandardDeviation :: "real list \<Rightarrow> number" where
  "calculateStandardDeviation values =
     (if values = [] then NaN
      else
        let mean = foldl (\<lambda>sum val. sum + val) 0 values / real (length values);
            squaredDiffs = map (\<lambda>val. (val - mean)\<^sup>2) values;
            variance = foldl (\<lambda>sum val. sum + val) 0 squaredDiffs / real (length values)
        in Fin (sqrt variance))"

section \<open>Grouping by category\<close>

text \<open>
  The accumulator of \<open>reduce\<close> is an object keyed by category identifier; a key that is
  absent reads as \<open>undefined\<close> and gets a fresh array before the push.
  \<open>Object.entries\<close> lists integer keys in ascending order (JavaScript orders the keys
  that are array indices, below \<open>2\<^sup>3\<^sup>2 - 1\<close>, numerically; the identifiers are serial
  row keys).
\<close>

definition addToGroup ::
  "(nat \<times> transaction list) list \<Rightarrow> transaction \<Rightarrow> (nat \<times> transaction list) list"
where
  "addToGroup groups transaction =
     (if txn_type transaction = Expense then
        (let key = category_id transaction
         in case map_of groups key of
              None \<Rightarrow> AList.update key [transaction] groups
            | Some g \<Rightarrow> AList.update key (g @ [transaction]) groups)
      else groups)"

definition groupTransactionsByCategory :: "transaction list \<Rightarrow> (nat \<times> transaction list) list" where
  "groupTransactionsByCategory transactions = foldl addToGroup [] transactions"

definition Object_entries :: "(nat \<times> 'a) list \<Rightarrow> (nat \<times> 'a) list" where
  "Object_entries obj = sort_key fst obj"

section \<open>Trend analysis\<close>

text \<open>
  \<open>currentMonth\<close> and \<open>lastMonth\<close> are the month keys of the clock and of the clock one
  month earlier. The division is reached only past the test \<open>lastSpending === 0\<close>.
\<close>

definition analyzeSpendingTrend :: "date \<Rightarrow> (monthKey \<times> real) list \<Rightarrow> spendingTrend" where
  "analyzeSpendingTrend now monthlySpending =
     (let currentMonth = format_yyyy_MM now;
          lastMonth = format_yyyy_MM (subMonths now 1);
          currentSpending = getOrZero monthlySpending currentMonth;
          lastSpending = getOrZero monthlySpending lastMonth
      in if lastSpending = 0 then \<lparr>trend = Stable, percentage = Fin 0\<rparr>
         else
           let percentageChange =
                 num_mul (num_div (currentSpending - lastSpending) lastSpending) (Fin 100)
           in \<lparr>trend = (if num_less (Fin 0) percentageChange then Up else Down),
               percentage = Math_abs percentageChange\<rparr>)"

section \<open>Anomaly detection\<close>

text \<open>\<open>t.category?.name || 'Uncategorized'\<close>: the fallback also replaces an empty name.\<close>

definition categoryNameOf :: "transaction \<Rightarrow> string" where
  "categoryNameOf t =
     (case category t of
        None \<Rightarrow> ''Uncategorized''
      | Some c \<Rightarrow> (if name c = [] then ''Uncategorized'' else name c))"

text \<open>
  The body of the loop over the groups, for one group. The source reads
  \<open>categoryTransactions[0]\<close> only under the test on the number of months, which an empty
  group fails; the model takes the first transaction apart up front and an empty group
  contributes nothing, as in the source.
\<close>

definition unusualSpendingOf ::
  "timeZone \<Rightarrow> date \<Rightarrow> transaction list \<Rightarrow> unusualCategory list"
where
  "unusualSpendingOf tz now categoryTransactions =
     (case categoryTransactions of
        [] \<Rightarrow> []
      | first # _ \<Rightarrow>
          let monthlyAverages = calculateMonthlyAverages tz categoryTransactions;
              currentMonthSpending = calculateCurrentMonthSpending tz now categoryTransactions
          in if 3 \<le> length monthlyAverages then
               (let average = foldl (\<lambda>sum val. sum + val) 0 monthlyAverages
                                / real (length monthlyAverages);
                    standardDev = calculateStandardDeviation monthlyAverages
                in if num_less (num_add (Fin average) (num_mul (Fin 2) standardDev))
                        (Fin currentMonthSpending)
                   then
                     (let percentage =
                            num_mul (num_div (currentMonthSpending - average) average) (Fin 100)
                      in [\<lparr>unusual_name = categoryNameOf first,
                           unusual_percentage = percentage\<rparr>])
                   else [])
             else [])"

definition detectUnusualSpending ::
  "timeZone \<Rightarrow> date \<Rightarrow> transaction list \<Rightarrow> unusualCategory list"
where
  "detectUnusualSpending tz now transactions =
     concat (map (\<lambda>(key, categoryTransactions). unusualSpendingOf tz now categoryTransactions)
               (Object_entries (groupTransactionsByCategory transactions)))"

section \<open>Savings opportunities\<close>

text \<open>\<open>Math.min(...values)\<close>: the least value, \<open>Infinity\<close> for no argument.\<close>

definition Math_min_of :: "real list \<Rightarrow> number" where
  "Math_min_of values = (case values of [] \<Rightarrow> PInf | v # vs \<Rightarrow> Fin (fold min vs v))"

text \<open>
  The source evaluates the sum, the quotient, the product with the double nearest to 0.7
  and the difference in IEEE double arithmetic; the model evaluates them over the reals,
  as everywhere. The two agree unless rounding decides the strict comparison: for the
  monthly totals 4.86, 11.01 and 4.83 the minimum equals 0.7 times the exact mean, while
  the doubles put the threshold one unit in the last place above the minimum.
\<close>

definition savingsOpportunityOf :: "timeZone \<Rightarrow> transaction list \<Rightarrow> savingsOpportunity list" where
  "savingsOpportunityOf tz categoryTransactions =
     (case categoryTransactions of
        [] \<Rightarrow> []
      | first # _ \<Rightarrow>
          let monthlyAmounts = calculateMonthlyAmounts tz categoryTransactions
          in if 3 \<le> length monthlyAmounts then
               (let average = foldl (\<lambda>sum val. sum + val) 0 monthlyAmounts
                                / real (length monthlyAmounts);
                    minimum = Math_min_of monthlyAmounts
                in if num_less minimum (Fin (average * (7 / 10))) then
                     (let potentialSavings = num_sub (Fin average) minimum
                      in [\<lparr>opportunity_message =
                             SavingsTarget minimum (categoryNameOf first) potentialSavings,
                           potentialSavings = potentialSavings\<rparr>])
                   else [])
             else [])"

definition findSavingsOpportunities :: "timeZone \<Rightarrow> transaction list \<Rightarrow> savingsOpportunity list" where
  "findSavingsOpportunities tz transactions =
     concat (map (\<lambda>(key, categoryTransactions). savingsOpportunityOf tz categoryTransactions)
               (Object_entries (groupTransactionsByCategory transactions)))"

section \<open>Insights\<close>

definition analyzeSpendingPatterns ::
  "timeZone \<Rightarrow> date \<Rightarrow> transaction list \<Rightarrow> spendingInsight list"
where
  "analyzeSpendingPatterns tz now transactions =
     (let monthlySpending = calculateMonthlySpending tz transactions;
          spendingTrend = analyzeSpendingTrend now monthlySpending;
          unusualCategories = detectUnusualSpending tz now transactions;
          trendInsights =
            (if trend spendingTrend = Up \<and> num_less (Fin 10) (percentage spendingTrend) then
               [\<lparr>insight_type = Warning,
                 message = SpendingIncreased (percentage spendingTrend),
                 insight_value = Some (percentage spendingTrend),
                 insight_trend = Some Up\<rparr>]
             else if trend spendingTrend = Down \<and> num_less (Fin 10) (percentage spendingTrend) then
               [\<lparr>insight_type = Success,
                 message = SpendingReduced (percentage spendingTrend),
                 insight_value = Some (percentage spendingTrend),
                 insight_trend = Some Down\<rparr>]
             else []);
          unusualInsights =
            map (\<lambda>category.
                   \<lparr>insight_type = Warning,
                    message = UnusualSpending (unusual_name category) (unusual_percentage category),
                    insight_value = Some (unusual_percentage category),
                    insight_trend = Some Up\<rparr>)
              unusualCategories;
          savingsOpportunities = findSavingsOpportunities tz transactions;
          savingsInsights =
            map (\<lambda>opportunity.
                   \<lparr>insight_type = Info,
                    message = opportunity_message opportunity,
                    insight_value = Some (potentialSavings opportunity),
                    insight_trend = None\<rparr>)
              savingsOpportunities
      in trendInsights @ unusualInsights @ savingsInsights)"

section \<open>Next-month prediction\<close>

text \<open>
  The regression comes from the package \<open>ml-regression-simple-linear\<close>, which is not part
  of the sources: the constructor \<open>new SimpleLinearRegression(x, y)\<close> is an argument of
  the prediction, and the object it builds offers \<open>predict\<close> and \<open>score\<close>.
\<close>

record regression =
  predict :: "real \<Rightarrow> number"
  score :: "real list \<Rightarrow> real list \<Rightarrow> number"

definition predictionOf ::
  "(real list \<Rightarrow> real list \<Rightarrow> regression) \<Rightarrow> timeZone \<Rightarrow> nat \<Rightarrow> transaction list
     \<Rightarrow> categoryPrediction list"
where
  "predictionOf newRegression tz key categoryTransactions =
     (let monthlyAmounts = calculateMonthlyAmounts tz categoryTransactions
      in if 3 \<le> length monthlyAmounts then
           (let x = map real [0..<length monthlyAmounts];
                y = monthlyAmounts;
                regression = newRegression x y;
                nextMonthPrediction = predict regression (real (length monthlyAmounts));
                clamped = Math_max (Fin 0) (Math_min (Fin 1) (score regression x y))
            in [\<lparr>categoryId = key,
                 predictedAmount = Math_max (Fin 0) nextMonthPrediction,
                 confidence = clamped\<rparr>])
         else [])"

text \<open>
  The function is \<open>async\<close> without an \<open>await\<close>: the promise resolves with the list.
  \<open>key\<close> is the loop's \<open>categoryId\<close>, the key of the group, which \<open>parseInt\<close> reads back
  as the identifier.
\<close>

definition predictNextMonthSpending ::
  "(real list \<Rightarrow> real list \<Rightarrow> regression) \<Rightarrow> timeZone \<Rightarrow> transaction list
     \<Rightarrow> categoryPrediction list"
where
  "predictNextMonthSpending newRegression tz transactions =
     concat (map (\<lambda>(key, categoryTransactions).
                    predictionOf newRegression tz key categoryTransactions)
               (Object_entries (groupTransactionsByCategory transactions)))"

text \<open>
  Modelled from the spec: the class \<open>SimpleLinearRegression\<close> of the package
  \<open>ml-regression-simple-linear\<close> is missing from the sources. The spec describes it as an
  ordinary least-squares fit of a line through the points \<open>(x, y)\<close> by the closed form
  for slope and intercept, \<open>predict\<close> evaluating the fitted line and \<open>score\<close> giving the
  coefficient of determination \<open>R\<^sup>2 = 1 - SS\<^sub>r\<^sub>e\<^sub>s / SS\<^sub>t\<^sub>o\<^sub>t\<close> of the line on the points it
  is given. A fit through points that share one \<open>x\<close> divides \<open>0\<close> by \<open>0\<close>: slope, intercept
  and all that is computed from them are NaN.
\<close>

definition rSquared :: "real list \<Rightarrow> real list \<Rightarrow> number" where
  "rSquared predicted y =
     (let yMean = sum_list y / real (length y);
          ssRes = (\<Sum>(yi, pi) \<leftarrow> zip y predicted. (yi - pi)\<^sup>2);
          ssTot = (\<Sum>yi \<leftarrow> y. (yi - yMean)\<^sup>2)
      in num_sub (Fin 1) (num_div ssRes ssTot))"

definition SimpleLinearRegression :: "real list \<Rightarrow> real list \<Rightarrow> regression" where
  "SimpleLinearRegression x y =
     (let xMean = sum_list x / real (length x);
          yMean = sum_list y / real (length y);
          sxx = (\<Sum>xi \<leftarrow> x. (xi - xMean)\<^sup>2);
          sxy = (\<Sum>(xi, yi) \<leftarrow> zip x y. (xi - xMean) * (yi - yMean))
      in if sxx = 0 then \<lparr>predict = (\<lambda>v. NaN), score = (\<lambda>xs ys. NaN)\<rparr>
         else
           let slope = sxy / sxx;
               intercept = yMean - slope * xMean
           in \<lparr>predict = (\<lambda>v. Fin (slope * v + intercept)),
               score = (\<lambda>xs ys. rSquared (map (\<lambda>v. slope * v + intercept) xs) ys)\<rparr>)"

section \<open>Notions used in the statements\<close>

text \<open>The expense transactions of one category, in the order of the input list.\<close>

abbreviation expensesOf :: "nat \<Rightarrow> transaction list \<Rightarrow> transaction list" where
  "expensesOf c ts \<equiv> filter (\<lambda>t. txn_type t = Expense \<and> category_id t = c) ts"

text \<open>
  The monthly aggregation as the specification words it: transactions are grouped by the
  calendar year and month of their date, the amounts of a month are summed, and a month
  without a transaction has no entry. \<open>monthTotal\<close> is the sum of one month,
  \<open>monthsInOrder\<close> lists the months that have a transaction, each once, in the order in
  which they first occur in the list.
\<close>

definition firstOccurrences :: "'a list \<Rightarrow> 'a list" where
  "firstOccurrences xs = rev (remdups (rev xs))"

definition monthsInOrder :: "timeZone \<Rightarrow> transaction list \<Rightarrow> monthKey list" where
  "monthsInOrder tz ts = firstOccurrences (map (\<lambda>t. format_yyyy_MM (new_Date tz (date t))) ts)"

definition monthTotal :: "timeZone \<Rightarrow> transaction list \<Rightarrow> monthKey \<Rightarrow> real" where
  "monthTotal tz ts k =
     sum_list (map amount (filter (\<lambda>t. format_yyyy_MM (new_Date tz (date t)) = k) ts))"

section \<open>Example inputs\<close>

text \<open>Three hosts: one on UTC, one five hours west of it, one 5:45 hours east of it.\<close>

definition utc :: timeZone where
  "utc = (\<lambda>d. 0)"

definition fiveHoursWest :: timeZone where
  "fiveHoursWest = (\<lambda>d. - 300)"

definition kathmandu :: timeZone where
  "kathmandu = (\<lambda>d. 345)"

definition expenseOn :: "int \<Rightarrow> nat \<Rightarrow> nat \<Rightarrow> nat \<Rightarrow> real \<Rightarrow> transaction" where
  "expenseOn y m d c a =
     \<lparr>txn_id = 0, amount = a, date = \<lparr>year = y, month = m, day = d\<rparr>, description = [],
      category_id = c, txn_type = Expense, category = None\<rparr>"

text \<open>One category with the monthly totals 10, 20 and 30, in ascending order of date.\<close>

definition risingHistory :: "transaction list" where
  "risingHistory = [expenseOn 2024 1 5 1 10, expenseOn 2024 2 5 1 20, expenseOn 2024 3 5 1 30]"

text \<open>
  The next three lists are in descending order of date, the order in which the dashboard
  fetches the transactions (\<open>.order('date', { ascending: false })\<close>) before it calls the
  module. \<open>flatHistory\<close> spends 100 in each of three months; \<open>spikeHistory\<close> spends 100 in
  January, February and March 2024 and 400 in April 2024; \<open>descendingHistory\<close> spends
  10 in January, 20 in February and 30 in March 2024, in five transactions.
\<close>

definition flatHistory :: "transaction list" where
  "flatHistory = [expenseOn 2024 3 1 1 100, expenseOn 2024 2 1 1 100, expenseOn 2024 1 1 1 100]"

definition spikeHistory :: "transaction list" where
  "spikeHistory =
     [expenseOn 2024 4 2 3 400, expenseOn 2024 3 2 3 100, expenseOn 2024 2 2 3 100,
      expenseOn 2024 1 2 3 100]"

definition descendingHistory :: "transaction list" where
  "descendingHistory =
     [expenseOn 2024 3 20 1 20, expenseOn 2024 3 5 1 10, expenseOn 2024 2 10 1 20,
      expenseOn 2024 1 25 1 6, expenseOn 2024 1 8 1 4]"

text \<open>A list with an expense on the first day of a year.\<close>

definition newYearHistory :: "transaction list" where
  "newYearHistory =
     [expenseOn 2024 1 1 1 10, expenseOn 2024 1 20 1 20, expenseOn 2024 2 20 1 30]"

section \<open>Sums and month maps\<close>

lemma foldl_plus_sum_list: "foldl (\<lambda>sum val. sum + val) a xs = a + sum_list (xs :: real list)"
  by (induction xs arbitrary: a) simp_all




subsection \<open>The month map computes the monthly totals\<close>

lemma firstOccurrences_snoc:
  "firstOccurrences (xs @ [x]) =
     (if x \<in> set xs then firstOccurrences xs else firstOccurrences xs @ [x])"
  by (simp add: firstOccurrences_def)

lemma set_firstOccurrences: "set (firstOccurrences xs) = set xs"
  by (simp add: firstOccurrences_def)

lemma distinct_firstOccurrences: "distinct (firstOccurrences xs)"
  by (simp add: firstOccurrences_def)

lemma update_tabulated_present:
  "distinct ks \<Longrightarrow> k \<in> set ks \<Longrightarrow>
   AList.update k v (map (\<lambda>j. (j, f j)) ks) = map (\<lambda>j. (j, if j = k then v else f j)) ks"
proof (induction ks)
  case Nil
  then show ?case by simp
next
  case (Cons j ks)
  show ?case
  proof (cases "j = k")
    case True
    with Cons.prems have "k \<notin> set ks" by simp
    then have "map (\<lambda>j. (j, if j = k then v else f j)) ks = map (\<lambda>j. (j, f j)) ks"
      by (intro map_cong) auto
    with True show ?thesis by simp
  next
    case False
    with Cons show ?thesis by simp
  qed
qed

lemma update_tabulated_absent:
  "k \<notin> set ks \<Longrightarrow>
   AList.update k v (map (\<lambda>j. (j, f j)) ks) = map (\<lambda>j. (j, f j)) ks @ [(k, v)]"
  by (induction ks) auto

lemma getOrZero_tabulated:
  "getOrZero (map (\<lambda>j. (j, f j)) ks) k = (if k \<in> set ks then f k else 0)"
  by (induction ks) (auto simp: getOrZero_def)

lemma monthTotal_snoc:
  "monthTotal tz (ts @ [t]) k =
     monthTotal tz ts k + (if format_yyyy_MM (new_Date tz (date t)) = k then amount t else 0)"
  by (simp add: monthTotal_def)

lemma monthTotal_absent:
  "k \<notin> set (map (\<lambda>t. format_yyyy_MM (new_Date tz (date t))) ts) \<Longrightarrow> monthTotal tz ts k = 0"
proof -
  assume "k \<notin> set (map (\<lambda>t. format_yyyy_MM (new_Date tz (date t))) ts)"
  then have "filter (\<lambda>t. format_yyyy_MM (new_Date tz (date t)) = k) ts = []"
    by (auto simp: filter_empty_conv)
  then show ?thesis
    by (simp add: monthTotal_def)
qed

text \<open>
  The map the \<open>forEach\<close> loop builds holds, for every month that has a transaction, the
  sum of the amounts of that month, the months standing in the order of their first
  occurrence in the list.
\<close>

lemma month_map_is_month_totals:
  "foldl (addToMonth tz) [] ts = map (\<lambda>k. (k, monthTotal tz ts k)) (monthsInOrder tz ts)"
proof (induction ts rule: rev_induct)
  case Nil
  show ?case by (simp add: monthsInOrder_def firstOccurrences_def)
next
  case (snoc t ts)
  let ?key = "\<lambda>t. format_yyyy_MM (new_Date tz (date t))"
  let ?k = "?key t"
  let ?ks = "monthsInOrder tz ts"
  have ks: "set ?ks = set (map ?key ts)"
    by (simp add: monthsInOrder_def set_firstOccurrences)
  show ?case
  proof (cases "?k \<in> set (map ?key ts)")
    case True
    then have in_ks: "?k \<in> set ?ks" using ks by simp
    have order: "monthsInOrder tz (ts @ [t]) = ?ks"
      using True by (simp add: monthsInOrder_def firstOccurrences_snoc)
    have "foldl (addToMonth tz) [] (ts @ [t]) =
            AList.update ?k (monthTotal tz ts ?k + amount t) (map (\<lambda>k. (k, monthTotal tz ts k)) ?ks)"
      using in_ks by (simp add: snoc.IH addToMonth_def Let_def getOrZero_tabulated)
    also have "\<dots> = map (\<lambda>k. (k, monthTotal tz (ts @ [t]) k)) ?ks"
      using in_ks
      by (simp add: update_tabulated_present monthTotal_snoc monthsInOrder_def
            distinct_firstOccurrences)
    finally show ?thesis by (simp only: order)
  next
    case False
    then have out_ks: "?k \<notin> set ?ks" using ks by simp
    have order: "monthsInOrder tz (ts @ [t]) = ?ks @ [?k]"
      using False by (simp add: monthsInOrder_def firstOccurrences_snoc)
    have zero: "monthTotal tz ts ?k = 0"
      using False by (rule monthTotal_absent)
    have "foldl (addToMonth tz) [] (ts @ [t]) =
            AList.update ?k (amount t) (map (\<lambda>k. (k, monthTotal tz ts k)) ?ks)"
      using out_ks by (simp add: snoc.IH addToMonth_def Let_def getOrZero_tabulated)
    also have "\<dots> = map (\<lambda>k. (k, monthTotal tz ts k)) ?ks @ [(?k, amount t)]"
      using out_ks by (simp add: update_tabulated_absent)
    also have "\<dots> = map (\<lambda>k. (k, monthTotal tz (ts @ [t]) k)) (?ks @ [?k])"
      using out_ks zero by (auto simp: monthTotal_snoc)
    finally show ?thesis by (simp only: order)
  qed
qed

lemma calculateMonthlyAmounts_is_month_totals:
  "calculateMonthlyAmounts tz ts = map (monthTotal tz ts) (monthsInOrder tz ts)"
  by (simp add: calculateMonthlyAmounts_def month_map_is_month_totals comp_def)

section \<open>Groups\<close>

lemma map_of_addToGroup:
  "map_of (addToGroup acc t) c =
     (if txn_type t = Expense \<and> category_id t = c
      then Some ((case map_of acc c of None \<Rightarrow> [] | Some g \<Rightarrow> g) @ [t])
      else map_of acc c)"
  by (auto simp: addToGroup_def Let_def update_conv' split: option.splits)

lemma map_of_foldl_addToGroup:
  "map_of (foldl addToGroup acc ts) c =
     (if expensesOf c ts = [] then map_of acc c
      else Some ((case map_of acc c of None \<Rightarrow> [] | Some g \<Rightarrow> g) @ expensesOf c ts))"
  by (induction ts arbitrary: acc) (auto simp: map_of_addToGroup split: option.splits)

lemma distinct_addToGroup:
  "distinct (map fst acc) \<Longrightarrow> distinct (map fst (addToGroup acc t))"
  by (auto simp: addToGroup_def Let_def distinct_update split: option.splits)

lemma distinct_foldl_addToGroup:
  "distinct (map fst acc) \<Longrightarrow> distinct (map fst (foldl addToGroup acc ts))"
  by (induction ts arbitrary: acc) (simp_all add: distinct_addToGroup)

text \<open>
  The groups the three loops run over: one entry per category that has an expense, holding
  the expense transactions of that category in input order.
\<close>

lemma group_entries_iff:
  "(c, g) \<in> set (Object_entries (groupTransactionsByCategory ts)) \<longleftrightarrow>
     g = expensesOf c ts \<and> g \<noteq> []"
proof -
  let ?groups = "groupTransactionsByCategory ts"
  have d: "distinct (map fst ?groups)"
    by (simp add: groupTransactionsByCategory_def distinct_foldl_addToGroup)
  have "(c, g) \<in> set (Object_entries ?groups) \<longleftrightarrow> map_of ?groups c = Some g"
    using d by (simp add: Object_entries_def)
  also have "\<dots> \<longleftrightarrow> g = expensesOf c ts \<and> g \<noteq> []"
    by (auto simp: groupTransactionsByCategory_def map_of_foldl_addToGroup)
  finally show ?thesis .
qed

lemma group_entry_subset:
  "(c, g) \<in> set (Object_entries (groupTransactionsByCategory ts)) \<Longrightarrow> set g \<subseteq> set ts"
  by (auto simp: group_entries_iff)

lemma calculateMonthlyAmounts_Nil: "calculateMonthlyAmounts tz [] = []"
  by (simp add: calculateMonthlyAmounts_def)

text \<open>A callback that leaves the accumulator alone on some elements does not see them.\<close>

lemma foldl_filter_skip:
  "(\<And>m t. \<not> P t \<Longrightarrow> f m t = m) \<Longrightarrow> foldl f m (filter P ts) = foldl f m ts"
  by (induction ts arbitrary: m) auto

lemma calculateMonthlySpending_drop_income:
  "calculateMonthlySpending tz (filter (\<lambda>t. txn_type t \<noteq> Income) ts) =
   calculateMonthlySpending tz ts"
  unfolding calculateMonthlySpending_def by (rule foldl_filter_skip) simp

lemma groupTransactionsByCategory_drop_income:
  "groupTransactionsByCategory (filter (\<lambda>t. txn_type t \<noteq> Income) ts) =
   groupTransactionsByCategory ts"
  unfolding groupTransactionsByCategory_def by (rule foldl_filter_skip) (simp add: addToGroup_def)

section \<open>The clock and the time zone\<close>

lemma same_month_start:
  "format_yyyy_MM a = format_yyyy_MM b \<Longrightarrow> startOfMonth a = startOfMonth b"
  by (cases a, cases b) (simp add: format_yyyy_MM_def startOfMonth_def)

lemma same_month_end:
  "format_yyyy_MM a = format_yyyy_MM b \<Longrightarrow> endOfMonth a = endOfMonth b"
  by (cases a, cases b) (simp add: format_yyyy_MM_def endOfMonth_def)

lemma same_month_previous:
  "format_yyyy_MM a = format_yyyy_MM b \<Longrightarrow>
   format_yyyy_MM (subMonths a n) = format_yyyy_MM (subMonths b n)"
  by (simp add: format_yyyy_MM_def subMonths_def Let_def)

lemma addToMonth_same_local_date:
  "new_Date tz1 (date t) = new_Date tz2 (date t) \<Longrightarrow> addToMonth tz1 m t = addToMonth tz2 m t"
  by (simp add: addToMonth_def)

lemma foldl_same_on_elements:
  "(\<And>m t. t \<in> set ts \<Longrightarrow> f m t = g m t) \<Longrightarrow> foldl f m0 ts = foldl g m0 ts"
  by (induction ts arbitrary: m0) simp_all

lemma calculateMonthlySpending_same_local_dates:
  assumes "\<forall>t \<in> set ts. new_Date tz1 (date t) = new_Date tz2 (date t)"
  shows "calculateMonthlySpending tz1 ts = calculateMonthlySpending tz2 ts"
  unfolding calculateMonthlySpending_def
proof (rule foldl_same_on_elements)
  fix m t assume "t \<in> set ts"
  with assms have "new_Date tz1 (date t) = new_Date tz2 (date t)"
    by blast
  then have "addToMonth tz1 m t = addToMonth tz2 m t"
    by (rule addToMonth_same_local_date)
  then show "(if txn_type t = Expense then addToMonth tz1 m t else m) =
             (if txn_type t = Expense then addToMonth tz2 m t else m)"
    by simp
qed

lemma calculateMonthlyAmounts_same_local_dates:
  assumes "\<forall>t \<in> set g. new_Date tz1 (date t) = new_Date tz2 (date t)"
  shows "calculateMonthlyAmounts tz1 g = calculateMonthlyAmounts tz2 g"
proof -
  have "foldl (addToMonth tz1) [] g = foldl (addToMonth tz2) [] g"
  proof (rule foldl_same_on_elements)
    fix m t assume "t \<in> set g"
    with assms have "new_Date tz1 (date t) = new_Date tz2 (date t)"
      by blast
    then show "addToMonth tz1 m t = addToMonth tz2 m t"
      by (rule addToMonth_same_local_date)
  qed
  then show ?thesis
    by (simp add: calculateMonthlyAmounts_def)
qed

lemma filter_same_on_elements:
  "(\<And>t. t \<in> set ts \<Longrightarrow> P t = Q t) \<Longrightarrow> filter P ts = filter Q ts"
  by (induction ts) simp_all

lemma calculateCurrentMonthSpending_same_local_dates:
  assumes "\<forall>t \<in> set g. new_Date tz1 (date t) = new_Date tz2 (date t)"
    and "format_yyyy_MM now1 = format_yyyy_MM now2"
  shows "calculateCurrentMonthSpending tz1 now1 g = calculateCurrentMonthSpending tz2 now2 g"
proof -
  have "filter (\<lambda>t. isWithinInterval (new_Date tz1 (date t)) (startOfMonth now1) (endOfMonth now1)) g
      = filter (\<lambda>t. isWithinInterval (new_Date tz2 (date t)) (startOfMonth now2) (endOfMonth now2)) g"
  proof (rule filter_same_on_elements)
    fix t assume "t \<in> set g"
    with assms(1) have "new_Date tz1 (date t) = new_Date tz2 (date t)"
      by simp
    then show "isWithinInterval (new_Date tz1 (date t)) (startOfMonth now1) (endOfMonth now1) =
               isWithinInterval (new_Date tz2 (date t)) (startOfMonth now2) (endOfMonth now2)"
      by (simp only: same_month_start [OF assms(2)] same_month_end [OF assms(2)])
  qed
  then show ?thesis
    by (simp only: calculateCurrentMonthSpending_def)
qed

lemma concat_map_cong:
  "(\<And>x. x \<in> set xs \<Longrightarrow> f x = g x) \<Longrightarrow> concat (map f xs) = concat (map g xs)"
  by (induction xs) simp_all

text \<open>
  Claim C1, as amended. Besides the transaction list (and the regression class), the
  results depend on the host: on its time zone, through the local calendar date the zone
  gives to the date of each transaction, and, for the analysis only, on its clock,
  through the calendar month the clock shows. Nothing else is read: two calls on the same
  list return the same insights and the same predictions whenever the two zones give
  every transaction the same local date and the two clocks show the same year and month.
\<close>

theorem results_read_local_dates_and_clock_month_only:
  assumes zone: "map (\<lambda>t. new_Date tz1 (date t)) ts = map (\<lambda>t. new_Date tz2 (date t)) ts"
    and clock: "format_yyyy_MM now1 = format_yyyy_MM now2"
  shows "analyzeSpendingPatterns tz1 now1 ts = analyzeSpendingPatterns tz2 now2 ts
       \<and> predictNextMonthSpending newRegression tz1 ts = predictNextMonthSpending newRegression tz2 ts"
proof -
  from zone have same: "\<forall>t \<in> set ts. new_Date tz1 (date t) = new_Date tz2 (date t)"
    by simp
  have in_group: "\<forall>t \<in> set g. new_Date tz1 (date t) = new_Date tz2 (date t)"
    if "(c, g) \<in> set (Object_entries (groupTransactionsByCategory ts))" for c g
    using same group_entry_subset [OF that] by blast
  have t: "analyzeSpendingTrend now1 m = analyzeSpendingTrend now2 m" for m
    using clock same_month_previous [OF clock, of 1] by (simp add: analyzeSpendingTrend_def)
  have s: "calculateMonthlySpending tz1 ts = calculateMonthlySpending tz2 ts"
    using same by (rule calculateMonthlySpending_same_local_dates)
  have u: "unusualSpendingOf tz1 now1 g = unusualSpendingOf tz2 now2 g"
    if "(c, g) \<in> set (Object_entries (groupTransactionsByCategory ts))" for c g
    unfolding unusualSpendingOf_def calculateMonthlyAverages_def
      calculateMonthlyAmounts_same_local_dates [OF in_group [OF that]]
      calculateCurrentMonthSpending_same_local_dates [OF in_group [OF that] clock] ..
  have v: "savingsOpportunityOf tz1 g = savingsOpportunityOf tz2 g"
    if "(c, g) \<in> set (Object_entries (groupTransactionsByCategory ts))" for c g
    unfolding savingsOpportunityOf_def
      calculateMonthlyAmounts_same_local_dates [OF in_group [OF that]] ..
  have p: "predictionOf newRegression tz1 c g = predictionOf newRegression tz2 c g"
    if "(c, g) \<in> set (Object_entries (groupTransactionsByCategory ts))" for c g
    unfolding predictionOf_def
      calculateMonthlyAmounts_same_local_dates [OF in_group [OF that]] ..
  have d: "detectUnusualSpending tz1 now1 ts = detectUnusualSpending tz2 now2 ts"
    unfolding detectUnusualSpending_def
    by (rule concat_map_cong) (auto simp: u)
  have f: "findSavingsOpportunities tz1 ts = findSavingsOpportunities tz2 ts"
    unfolding findSavingsOpportunities_def
    by (rule concat_map_cong) (auto simp: v)
  have q: "predictNextMonthSpending newRegression tz1 ts = predictNextMonthSpending newRegression tz2 ts"
    unfolding predictNextMonthSpending_def
    by (rule concat_map_cong) (auto simp: p)
  show ?thesis
    by (simp add: analyzeSpendingPatterns_def t s d f q)
qed

section \<open>The example inputs, evaluated\<close>

lemmas month_defs = calculateMonthlyAmounts_def addToMonth_def getOrZero_def format_yyyy_MM_def
  calculateMonthlySpending_def

lemmas group_defs = groupTransactionsByCategory_def addToGroup_def Object_entries_def

lemmas date_defs = isWithinInterval_def startOfMonth_def endOfMonth_def date_le_def
  getDaysInMonth_def isLeapYear_def subMonths_def

lemmas zone_defs = new_Date_def previousDay_def utc_def fiveHoursWest_def kathmandu_def
  getDaysInMonth_def isLeapYear_def

lemma rising_groups:
  "Object_entries (groupTransactionsByCategory risingHistory) = [(1, risingHistory)]"
  by (simp add: risingHistory_def expenseOn_def group_defs)

lemma rising_amounts: "calculateMonthlyAmounts utc risingHistory = [10, 20, 30]"
  by (simp add: risingHistory_def expenseOn_def month_defs zone_defs)

lemma rising_spending:
  "calculateMonthlySpending utc risingHistory =
     [((2024, 1), 10), ((2024, 2), 20), ((2024, 3), 30)]"
  by (simp add: risingHistory_def expenseOn_def month_defs zone_defs)

lemma rising_local_dates:
  "map (\<lambda>t. new_Date utc (date t)) risingHistory =
   map (\<lambda>t. new_Date kathmandu (date t)) risingHistory"
  by (simp add: risingHistory_def expenseOn_def zone_defs)

lemma flat_groups: "Object_entries (groupTransactionsByCategory flatHistory) = [(1, flatHistory)]"
  by (simp add: flatHistory_def expenseOn_def group_defs)

lemma flat_amounts: "calculateMonthlyAmounts utc flatHistory = [100, 100, 100]"
  by (simp add: flatHistory_def expenseOn_def month_defs zone_defs)

lemma spike_groups:
  "Object_entries (groupTransactionsByCategory spikeHistory) = [(3, spikeHistory)]"
  by (simp add: spikeHistory_def expenseOn_def group_defs)

lemma spike_amounts: "calculateMonthlyAmounts utc spikeHistory = [400, 100, 100, 100]"
  by (simp add: spikeHistory_def expenseOn_def month_defs zone_defs)

lemma spike_current:
  "calculateCurrentMonthSpending utc \<lparr>year = 2024, month = 4, day = 15\<rparr> spikeHistory = 400"
  by (simp add: calculateCurrentMonthSpending_def spikeHistory_def expenseOn_def date_defs
        new_Date_def utc_def)

lemma descending_groups:
  "Object_entries (groupTransactionsByCategory descendingHistory) = [(1, descendingHistory)]"
  by (simp add: descendingHistory_def expenseOn_def group_defs)

lemma ascending_groups:
  "Object_entries (groupTransactionsByCategory (rev descendingHistory)) =
     [(1, rev descendingHistory)]"
  by (simp add: descendingHistory_def expenseOn_def group_defs)

lemma descending_amounts: "calculateMonthlyAmounts utc descendingHistory = [30, 20, 10]"
  by (simp add: descendingHistory_def expenseOn_def month_defs zone_defs)

lemma ascending_amounts: "calculateMonthlyAmounts utc (rev descendingHistory) = [10, 20, 30]"
  by (simp add: descendingHistory_def expenseOn_def month_defs zone_defs)

lemma newYear_groups:
  "Object_entries (groupTransactionsByCategory newYearHistory) = [(1, newYearHistory)]"
  by (simp add: newYearHistory_def expenseOn_def group_defs)

lemma newYear_amounts_utc: "calculateMonthlyAmounts utc newYearHistory = [30, 30]"
  by (simp add: newYearHistory_def expenseOn_def month_defs zone_defs)

lemma newYear_amounts_west: "calculateMonthlyAmounts fiveHoursWest newYearHistory = [10, 20, 30]"
  by (simp add: newYearHistory_def expenseOn_def month_defs zone_defs)

section \<open>Savings opportunities\<close>

lemma Math_min_of_nonempty: "ms \<noteq> [] \<Longrightarrow> Math_min_of ms = Fin (Min (set ms))"
proof (cases ms)
  case (Cons v vs)
  then show ?thesis
    using Min.set_eq_fold [of v vs] by (simp add: Math_min_of_def)
qed simp

text \<open>What the loop body does for a group with at least three months.\<close>

lemma savingsOpportunityOf_enough_months:
  assumes "3 \<le> length (calculateMonthlyAmounts tz g)"
  shows "savingsOpportunityOf tz g =
     (let ms = calculateMonthlyAmounts tz g;
          average = sum_list ms / real (length ms);
          minimum = Min (set ms)
      in if minimum < average * (7 / 10)
         then [\<lparr>opportunity_message =
                  SavingsTarget (Fin minimum) (categoryNameOf (hd g)) (Fin (average - minimum)),
                potentialSavings = Fin (average - minimum)\<rparr>]
         else [])"
proof -
  from assms have g: "g \<noteq> []"
    using calculateMonthlyAmounts_Nil by force
  from assms have ms: "calculateMonthlyAmounts tz g \<noteq> []"
    by auto
  from g obtain t rest where "g = t # rest"
    by (cases g) auto
  then show ?thesis
    using assms ms
    by (simp add: savingsOpportunityOf_def Let_def Math_min_of_nonempty foldl_plus_sum_list
          num_sub_def)
qed

section \<open>The analysis of the rising example\<close>

lemma rising_unusual: "unusualSpendingOf utc now risingHistory = []"
  by (simp add: unusualSpendingOf_def calculateMonthlyAverages_def rising_amounts Let_def
        risingHistory_def[symmetric] split: list.splits)

lemma rising_savings:
  "savingsOpportunityOf utc risingHistory =
     [\<lparr>opportunity_message = SavingsTarget (Fin 10) ''Uncategorized'' (Fin 10),
       potentialSavings = Fin 10\<rparr>]"
  by (simp add: savingsOpportunityOf_enough_months rising_amounts Let_def)
     (simp add: risingHistory_def expenseOn_def categoryNameOf_def)

lemma rising_trend_april:
  "analyzeSpendingTrend \<lparr>year = 2024, month = 4, day = 15\<rparr>
     (calculateMonthlySpending utc risingHistory)
     = \<lparr>trend = Down, percentage = Fin 100\<rparr>"
  by (simp add: analyzeSpendingTrend_def rising_spending getOrZero_def format_yyyy_MM_def
        subMonths_def Let_def num_div_def)

lemma rising_trend_february:
  "analyzeSpendingTrend \<lparr>year = 2024, month = 2, day = 15\<rparr>
     (calculateMonthlySpending utc risingHistory)
     = \<lparr>trend = Up, percentage = Fin 100\<rparr>"
  by (simp add: analyzeSpendingTrend_def rising_spending getOrZero_def format_yyyy_MM_def
        subMonths_def Let_def num_div_def)

lemma rising_analysis_april:
  "analyzeSpendingPatterns utc \<lparr>year = 2024, month = 4, day = 15\<rparr> risingHistory =
     [\<lparr>insight_type = Success, message = SpendingReduced (Fin 100),
       insight_value = Some (Fin 100), insight_trend = Some Down\<rparr>,
      \<lparr>insight_type = Info, message = SavingsTarget (Fin 10) ''Uncategorized'' (Fin 10),
       insight_value = Some (Fin 10), insight_trend = None\<rparr>]"
  by (simp add: analyzeSpendingPatterns_def rising_trend_april detectUnusualSpending_def
        findSavingsOpportunities_def rising_groups rising_unusual rising_savings)

lemma rising_analysis_february:
  "analyzeSpendingPatterns utc \<lparr>year = 2024, month = 2, day = 15\<rparr> risingHistory =
     [\<lparr>insight_type = Warning, message = SpendingIncreased (Fin 100),
       insight_value = Some (Fin 100), insight_trend = Some Up\<rparr>,
      \<lparr>insight_type = Info, message = SavingsTarget (Fin 10) ''Uncategorized'' (Fin 10),
       insight_value = Some (Fin 10), insight_trend = None\<rparr>]"
  by (simp add: analyzeSpendingPatterns_def rising_trend_february detectUnusualSpending_def
        findSavingsOpportunities_def rising_groups rising_unusual rising_savings)

text \<open>
  A host on UTC in mid April and a host in Kathmandu at the end of April: the zones agree
  on the local date of every transaction of the example, and the clocks on the month.
\<close>

theorem results_read_local_dates_and_clock_month_only_witness:
  "map (\<lambda>t. new_Date utc (date t)) risingHistory =
     map (\<lambda>t. new_Date kathmandu (date t)) risingHistory
   \<and> format_yyyy_MM \<lparr>year = 2024, month = 4, day = 15\<rparr> =
       format_yyyy_MM \<lparr>year = 2024, month = 4, day = 28\<rparr>
   \<and> analyzeSpendingPatterns utc \<lparr>year = 2024, month = 4, day = 15\<rparr> risingHistory =
       analyzeSpendingPatterns kathmandu \<lparr>year = 2024, month = 4, day = 28\<rparr> risingHistory
   \<and> predictNextMonthSpending SimpleLinearRegression utc risingHistory =
       predictNextMonthSpending SimpleLinearRegression kathmandu risingHistory"
proof -
  have h: "format_yyyy_MM \<lparr>year = 2024, month = 4, day = 15\<rparr> =
           format_yyyy_MM \<lparr>year = 2024, month = 4, day = 28\<rparr>"
    by (simp add: format_yyyy_MM_def)
  from results_read_local_dates_and_clock_month_only
         [OF rising_local_dates h, of SimpleLinearRegression]
       rising_local_dates h
  show ?thesis by blast
qed

text \<open>
  The same list analysed on the same host in February and in April 2024: a warning about
  a rise of 100% in February, a success about a reduction of 100% in April.
\<close>

theorem analysis_depends_on_clock_counterexample:
  "analyzeSpendingPatterns utc \<lparr>year = 2024, month = 2, day = 15\<rparr> risingHistory \<noteq>
   analyzeSpendingPatterns utc \<lparr>year = 2024, month = 4, day = 15\<rparr> risingHistory"
  by (simp add: rising_analysis_april rising_analysis_february)

section \<open>Trend analysis\<close>






section \<open>Anomaly detection\<close>

lemma spike_deviation: "calculateStandardDeviation [400, 100, 100] = Fin (sqrt 20000)"
  by (simp add: calculateStandardDeviation_def Let_def)

lemma flat_deviation: "calculateStandardDeviation [100, 100, 100] = Fin 0"
  by (simp add: calculateStandardDeviation_def Let_def)

lemma sqrt_20000_lower: "100 \<le> sqrt 20000"
  by (rule real_le_rsqrt) simp

lemma spike_unusual:
  "unusualSpendingOf utc \<lparr>year = 2024, month = 4, day = 15\<rparr> spikeHistory = []"
proof -
  have "\<not> 200 + 2 * sqrt 20000 < 400"
    using sqrt_20000_lower by linarith
  then show ?thesis
    by (simp add: unusualSpendingOf_def calculateMonthlyAverages_def spike_amounts spike_current
          spike_deviation Let_def split: list.splits)
qed

text \<open>
  Claim C3, at a failing input. On 15 April 2024 the category of \<open>spikeHistory\<close> has
  spent 400 in the current month and 100 in each of the three months before: over the
  history without the current month the mean is 100 and the deviation 0, and 400 exceeds
  \<open>100 + 2 * 0\<close>. The code takes as history all month totals but the last one inserted,
  here 400, 100, 100 (the current month is kept, the oldest month dropped), whose mean is
  200 and deviation above 100, and reports no anomaly.
\<close>

theorem history_drops_last_bucket_not_current_month:
  "calculateCurrentMonthSpending utc \<lparr>year = 2024, month = 4, day = 15\<rparr>
     (expensesOf 3 spikeHistory) = 400
   \<and> map snd (filter (\<lambda>(k, v). k \<noteq> format_yyyy_MM \<lparr>year = 2024, month = 4, day = 15\<rparr>)
               (calculateMonthlySpending utc (expensesOf 3 spikeHistory))) = [100, 100, 100]
   \<and> calculateStandardDeviation [100, 100, 100] = Fin 0
   \<and> calculateMonthlyAverages utc (expensesOf 3 spikeHistory) = [400, 100, 100]
   \<and> detectUnusualSpending utc \<lparr>year = 2024, month = 4, day = 15\<rparr> spikeHistory = []"
proof -
  have e: "expensesOf 3 spikeHistory = spikeHistory"
    by (simp add: spikeHistory_def expenseOn_def)
  have m: "calculateMonthlySpending utc spikeHistory =
             [((2024, 4), 400), ((2024, 3), 100), ((2024, 2), 100), ((2024, 1), 100)]"
    by (simp add: spikeHistory_def expenseOn_def month_defs zone_defs)
  have d: "detectUnusualSpending utc \<lparr>year = 2024, month = 4, day = 15\<rparr> spikeHistory = []"
    by (simp add: detectUnusualSpending_def spike_groups spike_unusual)
  show ?thesis
    unfolding e
    by (simp add: spike_current m flat_deviation d calculateMonthlyAverages_def spike_amounts
          format_yyyy_MM_def)
qed

text \<open>
  The same transactions in ascending order of date: the last month inserted is the
  current one, and the anomaly is reported with percentage 300.
\<close>

lemma spike_ascending_is_flagged:
  "detectUnusualSpending utc \<lparr>year = 2024, month = 4, day = 15\<rparr> (rev spikeHistory) =
     [\<lparr>unusual_name = ''Uncategorized'', unusual_percentage = Fin 300\<rparr>]"
  by (simp add: detectUnusualSpending_def spikeHistory_def expenseOn_def group_defs
        unusualSpendingOf_def calculateMonthlyAverages_def month_defs
        calculateCurrentMonthSpending_def date_defs calculateStandardDeviation_def
        categoryNameOf_def num_div_def Let_def new_Date_def utc_def)

section \<open>Next-month prediction\<close>

lemma upt3: "[0..<3] = [0, 1, 2]"
  by (simp add: upt_rec)

lemma regression_rising_predict:
  "predict (SimpleLinearRegression [0, 1, 2] [10, 20, 30]) 3 = Fin 40"
  by (simp add: SimpleLinearRegression_def Let_def power2_eq_square)

lemma regression_rising_score:
  "score (SimpleLinearRegression [0, 1, 2] [10, 20, 30]) [0, 1, 2] [10, 20, 30] = Fin 1"
  by (simp add: SimpleLinearRegression_def rSquared_def Let_def power2_eq_square
        num_div_def num_sub_def)

lemma regression_falling_predict:
  "predict (SimpleLinearRegression [0, 1, 2] [30, 20, 10]) 3 = Fin 0"
  by (simp add: SimpleLinearRegression_def Let_def power2_eq_square)

lemma regression_falling_score:
  "score (SimpleLinearRegression [0, 1, 2] [30, 20, 10]) [0, 1, 2] [30, 20, 10] = Fin 1"
  by (simp add: SimpleLinearRegression_def rSquared_def Let_def power2_eq_square
        num_div_def num_sub_def)

lemma predictionOf_rising:
  "calculateMonthlyAmounts tz g = [10, 20, 30] \<Longrightarrow>
   predictionOf SimpleLinearRegression tz c g =
     [\<lparr>categoryId = c, predictedAmount = Fin 40, confidence = Fin 1\<rparr>]"
  by (simp add: predictionOf_def upt3 regression_rising_predict regression_rising_score
        Math_max_def Math_min_def)

lemma predictionOf_falling:
  "calculateMonthlyAmounts tz g = [30, 20, 10] \<Longrightarrow>
   predictionOf SimpleLinearRegression tz c g =
     [\<lparr>categoryId = c, predictedAmount = Fin 0, confidence = Fin 1\<rparr>]"
  by (simp add: predictionOf_def upt3 regression_falling_predict regression_falling_score
        Math_max_def Math_min_def)

lemma rising_prediction:
  "predictNextMonthSpending SimpleLinearRegression utc risingHistory =
     [\<lparr>categoryId = 1, predictedAmount = Fin 40, confidence = Fin 1\<rparr>]"
  by (simp add: predictNextMonthSpending_def rising_groups predictionOf_rising rising_amounts)

lemma descending_month_totals:
  "monthTotal utc descendingHistory (2024, 1) = 10 \<and>
   monthTotal utc descendingHistory (2024, 2) = 20 \<and>
   monthTotal utc descendingHistory (2024, 3) = 30"
  by (simp add: monthTotal_def descendingHistory_def expenseOn_def format_yyyy_MM_def zone_defs)

lemma descending_months:
  "monthsInOrder utc descendingHistory = [(2024, 3), (2024, 2), (2024, 1)]"
  by (simp add: monthsInOrder_def firstOccurrences_def descendingHistory_def expenseOn_def
        format_yyyy_MM_def zone_defs)

text \<open>
  Claim C6, at a failing input. The category of \<open>descendingHistory\<close> has the monthly
  expense totals 10 in January, 20 in February and 30 in March 2024, a perfect linear fit
  whose next month is 40. The code numbers the months in the order in which they first
  occur in the list; the list is in descending order of date, so the regression runs
  through 30, 20, 10 and the entry predicts 0, the value one month before January. On the
  same transactions in ascending order of date the entry predicts 40 with confidence 1.
\<close>

theorem descending_history_predicts_backwards:
  "expensesOf 1 descendingHistory = descendingHistory
   \<and> monthsInOrder utc descendingHistory = [(2024, 3), (2024, 2), (2024, 1)]
   \<and> monthTotal utc descendingHistory (2024, 1) = 10
   \<and> monthTotal utc descendingHistory (2024, 2) = 20
   \<and> monthTotal utc descendingHistory (2024, 3) = 30
   \<and> calculateMonthlyAmounts utc descendingHistory = [30, 20, 10]
   \<and> predictNextMonthSpending SimpleLinearRegression utc descendingHistory =
       [\<lparr>categoryId = 1, predictedAmount = Fin 0, confidence = Fin 1\<rparr>]
   \<and> predictNextMonthSpending SimpleLinearRegression utc (rev descendingHistory) =
       [\<lparr>categoryId = 1, predictedAmount = Fin 40, confidence = Fin 1\<rparr>]"
proof -
  have e: "expensesOf 1 descendingHistory = descendingHistory"
    by (simp add: descendingHistory_def expenseOn_def)
  have d: "predictNextMonthSpending SimpleLinearRegression utc descendingHistory =
       [\<lparr>categoryId = 1, predictedAmount = Fin 0, confidence = Fin 1\<rparr>]"
    by (simp add: predictNextMonthSpending_def descending_groups predictionOf_falling
          descending_amounts)
  have a: "predictNextMonthSpending SimpleLinearRegression utc (rev descendingHistory) =
       [\<lparr>categoryId = 1, predictedAmount = Fin 40, confidence = Fin 1\<rparr>]"
    by (simp add: predictNextMonthSpending_def ascending_groups predictionOf_rising
          ascending_amounts)
  from e d a descending_months descending_month_totals descending_amounts
  show ?thesis by blast
qed

text \<open>
  The time zone is an input of the prediction: an expense dated 1 January falls into
  December on a host west of Greenwich, which gives \<open>newYearHistory\<close> three months there
  and two months, hence no prediction, on a host on UTC.
\<close>

lemma prediction_depends_on_time_zone:
  "predictNextMonthSpending SimpleLinearRegression utc newYearHistory = []
   \<and> predictNextMonthSpending SimpleLinearRegression fiveHoursWest newYearHistory =
       [\<lparr>categoryId = 1, predictedAmount = Fin 40, confidence = Fin 1\<rparr>]"
  by (simp add: predictNextMonthSpending_def newYear_groups predictionOf_rising
        newYear_amounts_west)
     (simp add: predictionOf_def newYear_amounts_utc)

lemma Math_max_zero_not_negative: "\<not> num_less (Math_max (Fin 0) x) (Fin 0)"
  by (cases x) (simp_all add: Math_max_def)

text \<open>
  Claim C7. No entry of the prediction has a negative predicted amount, whatever the
  regression returns at the next index (a negative value, an infinity or NaN).
\<close>

theorem predictedAmount_not_negative:
  "\<forall>p \<in> set (predictNextMonthSpending newRegression tz ts).
     \<not> num_less (predictedAmount p) (Fin 0)"
  by (auto simp: predictNextMonthSpending_def predictionOf_def Let_def Math_max_zero_not_negative
           split: if_splits)

theorem predictedAmount_not_negative_witness:
  "\<lparr>categoryId = 1, predictedAmount = Fin 40, confidence = Fin 1\<rparr>
     \<in> set (predictNextMonthSpending SimpleLinearRegression utc risingHistory) \<and>
   \<not> num_less (predictedAmount \<lparr>categoryId = 1, predictedAmount = Fin 40, confidence = Fin 1\<rparr>)
       (Fin 0)"
proof -
  have h: "\<lparr>categoryId = 1, predictedAmount = Fin 40, confidence = Fin 1\<rparr>
     \<in> set (predictNextMonthSpending SimpleLinearRegression utc risingHistory)"
    unfolding rising_prediction by simp
  from predictedAmount_not_negative [of SimpleLinearRegression utc risingHistory] h
  show ?thesis by blast
qed

text \<open>
  The clamp \<open>Math.max(0, Math.min(1, s))\<close> brings every score but NaN into the interval
  from 0 to 1, and lets NaN through.
\<close>

lemma confidence_clamped:
  assumes "p \<in> set (predictNextMonthSpending newRegression tz ts)"
  shows "confidence p = NaN \<or> (\<exists>r. confidence p = Fin r \<and> 0 \<le> r \<and> r \<le> 1)"
proof -
  have "Math_max (Fin 0) (Math_min (Fin 1) x) = NaN \<or>
        (\<exists>r. Math_max (Fin 0) (Math_min (Fin 1) x) = Fin r \<and> 0 \<le> r \<and> r \<le> 1)" for x
    by (cases x) (auto simp: Math_max_def Math_min_def)
  moreover from assms obtain s where "confidence p = Math_max (Fin 0) (Math_min (Fin 1) s)"
    by (auto simp: predictNextMonthSpending_def predictionOf_def Let_def split: if_splits)
  ultimately show ?thesis
    by simp
qed

lemma regression_flat_predict:
  "predict (SimpleLinearRegression [0, 1, 2] [100, 100, 100]) 3 = Fin 100"
  by (simp add: SimpleLinearRegression_def Let_def power2_eq_square)

lemma regression_flat_score:
  "score (SimpleLinearRegression [0, 1, 2] [100, 100, 100]) [0, 1, 2] [100, 100, 100] = NaN"
  by (simp add: SimpleLinearRegression_def rSquared_def Let_def power2_eq_square
        num_div_def num_sub_def)

text \<open>
  Claim C2, at a failing input. A category that spends 100 in each of three months is
  fitted exactly by the constant line: the residual and the total sum of squares are
  both 0, the coefficient of determination is \<open>1 - 0 / 0\<close>, and the confidence of the
  entry is NaN, which is not a value of the interval from 0 to 1.
\<close>

theorem constant_history_confidence_is_NaN:
  "calculateMonthlyAmounts utc (expensesOf 1 flatHistory) = [100, 100, 100] \<and>
   predictNextMonthSpending SimpleLinearRegression utc flatHistory =
     [\<lparr>categoryId = 1, predictedAmount = Fin 100, confidence = NaN\<rparr>]"
  by (simp add: predictNextMonthSpending_def flat_groups predictionOf_def flat_amounts upt3
        regression_flat_predict regression_flat_score Math_max_def Math_min_def)
     (simp add: flatHistory_def expenseOn_def month_defs zone_defs)

section \<open>Insights\<close>

text \<open>
  Claim C10. In the list the analysis returns, an insight of type \<open>warning\<close> has trend
  \<open>up\<close>, one of type \<open>success\<close> has trend \<open>down\<close>, and one of type \<open>info\<close> has no
  trend.
\<close>

theorem insight_type_fixes_trend:
  "\<forall>i \<in> set (analyzeSpendingPatterns tz now ts).
     (insight_type i = Warning \<longrightarrow> insight_trend i = Some Up) \<and>
     (insight_type i = Success \<longrightarrow> insight_trend i = Some Down) \<and>
     (insight_type i = Info \<longrightarrow> insight_trend i = None)"
  by (auto simp: analyzeSpendingPatterns_def Let_def split: if_splits)

theorem insight_type_fixes_trend_witness:
  "\<lparr>insight_type = Success, message = SpendingReduced (Fin 100),
     insight_value = Some (Fin 100), insight_trend = Some Down\<rparr>
     \<in> set (analyzeSpendingPatterns utc \<lparr>year = 2024, month = 4, day = 15\<rparr> risingHistory)
   \<and> \<lparr>insight_type = Info, message = SavingsTarget (Fin 10) ''Uncategorized'' (Fin 10),
       insight_value = Some (Fin 10), insight_trend = None\<rparr>
     \<in> set (analyzeSpendingPatterns utc \<lparr>year = 2024, month = 4, day = 15\<rparr> risingHistory)"
proof -
  have a: "\<lparr>insight_type = Success, message = SpendingReduced (Fin 100),
     insight_value = Some (Fin 100), insight_trend = Some Down\<rparr>
     \<in> set (analyzeSpendingPatterns utc \<lparr>year = 2024, month = 4, day = 15\<rparr> risingHistory)"
    unfolding rising_analysis_april by simp
  have b: "\<lparr>insight_type = Info, message = SavingsTarget (Fin 10) ''Uncategorized'' (Fin 10),
       insight_value = Some (Fin 10), insight_trend = None\<rparr>
     \<in> set (analyzeSpendingPatterns utc \<lparr>year = 2024, month = 4, day = 15\<rparr> risingHistory)"
    unfolding rising_analysis_april by simp
  from insight_type_fixes_trend [of utc "\<lparr>year = 2024, month = 4, day = 15\<rparr>" risingHistory] a b
  show ?thesis by blast
qed

text \<open>
  Claim C8. Removing the income transactions from the input changes neither the insights
  of the analysis nor the prediction.
\<close>

theorem income_never_affects_results:
  "analyzeSpendingPatterns tz now (filter (\<lambda>t. txn_type t \<noteq> Income) ts)
     = analyzeSpendingPatterns tz now ts
   \<and> predictNextMonthSpending newRegression tz (filter (\<lambda>t. txn_type t \<noteq> Income) ts)
       = predictNextMonthSpending newRegression tz ts"
  by (simp add: analyzeSpendingPatterns_def detectUnusualSpending_def findSavingsOpportunities_def
        predictNextMonthSpending_def calculateMonthlySpending_drop_income
        groupTransactionsByCategory_drop_income)

end
